theory Spec2Isabelle
  imports Complex_Main
begin

section \<open>Data model\<close>

text \<open>
  The notebook's feature engineering works on numpy arrays. A batch is a 3-dimensional
  array of shape \<open>(N, R, L)\<close>: \<open>N\<close> samples, \<open>R\<close> channel rows, \<open>L\<close> readings. The shape is
  kept beside the elements, as numpy does (an array of shape \<open>(0, 2, 128)\<close> has no element
  and still has a shape). Numbers are exact reals and complex numbers: the arithmetic of
  the formulas is modelled, rounding is not. An exact real has no signed zero, no
  not-a-number and no infinity; what the code computes from such values, and by how
  much a rounded result differs from the exact one, is outside this development.
\<close>

datatype py_error = IndexError | ValueError | ZeroDivisionError

record ndarray3 =
  shape0 :: nat
  shape1 :: nat
  shape2 :: nat
  elems :: "real list list list"

definition wf3 :: "ndarray3 \<Rightarrow> bool" where
  "wf3 X \<longleftrightarrow>
     length (elems X) = shape0 X \<and>
     (\<forall>s \<in> set (elems X). length s = shape1 X \<and> (\<forall>r \<in> set s. length r = shape2 X))"

definition bind_err :: "py_error + 'a \<Rightarrow> ('a \<Rightarrow> py_error + 'b) \<Rightarrow> py_error + 'b" where
  "bind_err m f = (case m of Inl e \<Rightarrow> Inl e | Inr v \<Rightarrow> f v)"

text \<open>\<open>X[i, j, k]\<close> with non-negative indices: out of range raises IndexError.\<close>

definition item3 :: "ndarray3 \<Rightarrow> nat \<Rightarrow> nat \<Rightarrow> nat \<Rightarrow> py_error + real" where
  "item3 X i j k =
     (if i < shape0 X \<and> j < shape1 X \<and> k < shape2 X
      then Inr (elems X ! i ! j ! k) else Inl IndexError)"

text \<open>A list comprehension evaluates its elements in order; the first raise ends it.\<close>

fun sequence_err :: "(py_error + 'a) list \<Rightarrow> py_error + 'a list" where
  "sequence_err [] = Inr []"
| "sequence_err (x # xs) =
     (case x of Inl e \<Rightarrow> Inl e
      | Inr v \<Rightarrow> (case sequence_err xs of Inl e \<Rightarrow> Inl e | Inr vs \<Rightarrow> Inr (v # vs)))"

text \<open>\<open>complex(X[samp_num,0,column], X[samp_num,1,column])\<close>\<close>

definition py_complex :: "ndarray3 \<Rightarrow> nat \<Rightarrow> nat \<Rightarrow> py_error + complex" where
  "py_complex X samp_num column =
     bind_err (item3 X samp_num 0 column) (\<lambda>re.
     bind_err (item3 X samp_num 1 column) (\<lambda>im. Inr (Complex re im)))"

text \<open>
  \<open>np.vstack\<close> of a list of scalars stacks them as rows of one element each, and raises
  ValueError on the empty list.
\<close>

definition np_vstack :: "'a list \<Rightarrow> py_error + 'a list list" where
  "np_vstack xs = (if xs = [] then Inl ValueError else Inr (map (\<lambda>x. [x]) xs))"

text \<open>
  \<open>np.reshape(A, [r, c])\<close> reads the elements in row-major order and cuts them into \<open>r\<close>
  rows of \<open>c\<close>; it raises ValueError when the sizes differ.
\<close>

definition np_reshape :: "'a list list \<Rightarrow> nat \<Rightarrow> nat \<Rightarrow> py_error + 'a list list" where
  "np_reshape A r c =
     (let flat = concat A in
      if length flat = r * c
      then Inr (map (\<lambda>i. take c (drop (i * c) flat)) [0..<r])
      else Inl ValueError)"

section \<open>The complex signal, as built in each of the two functions\<close>

text \<open>
  The first lines of \<open>form_features\<close>: the three dimensions are read (\<open>rows\<close> is not used
  again), the list comprehension pairs channel 0 with channel 1, and the list is stacked
  and reshaped to \<open>n_samples\<close> rows of \<open>vec_len\<close>.
\<close>

definition form_features_X_complex :: "ndarray3 \<Rightarrow> py_error + complex list list" where
  "form_features_X_complex X =
     (let n_samples = shape0 X; rows = shape1 X; vec_len = shape2 X in
      bind_err (sequence_err (map (\<lambda>(samp_num, column). py_complex X samp_num column)
                  (List.product [0..<n_samples] [0..<vec_len]))) (\<lambda>X_complex.
      bind_err (np_vstack X_complex) (\<lambda>X_complex.
      np_reshape X_complex n_samples vec_len)))"

text \<open>The first lines of \<open>form_next16_features\<close>: the same text again.\<close>

definition form_next16_features_X_complex :: "ndarray3 \<Rightarrow> py_error + complex list list" where
  "form_next16_features_X_complex X =
     (let n_samples = shape0 X; rows = shape1 X; vec_len = shape2 X in
      bind_err (sequence_err (map (\<lambda>(samp_num, column). py_complex X samp_num column)
                  (List.product [0..<n_samples] [0..<vec_len]))) (\<lambda>X_complex.
      bind_err (np_vstack X_complex) (\<lambda>X_complex.
      np_reshape X_complex n_samples vec_len)))"

text \<open>The complex sequences the batch stands for: \<open>z[n][k] = X[n,0,k] + i X[n,1,k]\<close>.\<close>

definition sample_z :: "nat \<Rightarrow> real list list \<Rightarrow> complex list" where
  "sample_z L s = map (\<lambda>k. Complex (s ! 0 ! k) (s ! 1 ! k)) [0..<L]"

definition raw_z :: "ndarray3 \<Rightarrow> complex list list" where
  "raw_z X = map (sample_z (shape2 X)) (elems X)"


section \<open>Array operations\<close>

text \<open>
  Elementwise numpy operations on 2-dimensional arrays (lists of rows) and on the
  1-dimensional arrays that a reduction along \<open>axis = 1\<close> leaves (one value per sample).
  \<open>abs\<close> is the norm: the absolute value of a real, the magnitude of a complex number.
\<close>

definition np_square :: "'a::real_normed_field list list \<Rightarrow> 'a list list" where
  "np_square A = map (map (\<lambda>x. x ^ 2)) A"

definition np_power :: "'a::real_normed_field list list \<Rightarrow> nat \<Rightarrow> 'a list list" where
  "np_power A p = map (map (\<lambda>x. x ^ p)) A"

text \<open>
  \<open>np.angle\<close> is the two-argument arctangent of the imaginary and the real part. On exact
  complex numbers it is the principal argument \<open>Arg\<close>, an argument of its input in
  \<open>(-\<pi>, \<pi>]\<close> with \<open>Arg 0 = 0\<close>. The code's value is \<open>-\<pi>\<close> instead of \<open>\<pi>\<close> where the real part
  is negative and the imaginary part a negative zero (\<open>np.angle(-1-0j)\<close>), and \<open>\<plusminus>\<pi>\<close> at a
  zero with negative real part; the exact model does not see the sign of a zero.
\<close>

definition np_angle :: "complex list list \<Rightarrow> real list list" where
  "np_angle A = map (map Arg) A"

definition np_abs :: "'a::real_normed_field list list \<Rightarrow> real list list" where
  "np_abs A = map (map norm) A"

definition np_mean_axis1 :: "'a::real_normed_field list list \<Rightarrow> 'a list" where
  "np_mean_axis1 A = map (\<lambda>r. sum_list r / of_nat (length r)) A"

definition np_sum_axis1 :: "'a::real_normed_field list list \<Rightarrow> 'a list" where
  "np_sum_axis1 A = map sum_list A"

definition np_square1 :: "'a::real_normed_field list \<Rightarrow> 'a list" where
  "np_square1 v = map (\<lambda>x. x ^ 2) v"

text \<open>\<open>v ** p\<close> on a 1-dimensional array.\<close>

definition pow1 :: "'a::real_normed_field list \<Rightarrow> nat \<Rightarrow> 'a list" where
  "pow1 v p = map (\<lambda>x. x ^ p) v"

text \<open>
  A Python float times a 1-dimensional array. The product is exact here: \<open>(1/n) * s\<close> and
  \<open>s / n\<close> are one real number, while in doubles the two round differently when \<open>n\<close> is not
  a power of two.
\<close>

definition scalar_mul :: "real \<Rightarrow> 'a::real_normed_field list \<Rightarrow> 'a list" where
  "scalar_mul c v = map (\<lambda>x. of_real c * x) v"

text \<open>The difference of two 1-dimensional arrays of one length.\<close>

definition np_subtract :: "'a::real_normed_field list \<Rightarrow> 'a list \<Rightarrow> 'a list" where
  "np_subtract u v = map2 (\<lambda>a b. a - b) u v"

text \<open>\<open>np.array([v]).T\<close>: the vector as a column, one row of one element per sample.\<close>

definition column :: "'a list \<Rightarrow> 'a list list" where
  "column v = map (\<lambda>x. [x]) v"

text \<open>Python's \<open>a / b\<close> and \<open>a % b\<close> on integers raise ZeroDivisionError when \<open>b\<close> is 0.\<close>

definition py_truediv :: "nat \<Rightarrow> nat \<Rightarrow> py_error + real" where
  "py_truediv a b = (if b = 0 then Inl ZeroDivisionError else Inr (real a / real b))"

definition py_mod :: "nat \<Rightarrow> nat \<Rightarrow> py_error + nat" where
  "py_mod a b = (if b = 0 then Inl ZeroDivisionError else Inr (a mod b))"

text \<open>The values of the feature dictionary are real arrays and complex arrays.\<close>

datatype ndarray2 = Float64 "real list list" | Complex128 "complex list list"

text \<open>
  \<open>np.array(X_16)\<close> stacks the sixteen columns into one array; complex columns are among
  them (f1, f5, f9, f13), so its element type is complex and the real columns are widened.
\<close>

fun as_complex128 :: "ndarray2 \<Rightarrow> complex list list" where
  "as_complex128 (Float64 A) = map (map complex_of_real) A"
| "as_complex128 (Complex128 A) = A"

definition np_array :: "ndarray2 list \<Rightarrow> complex list list list" where
  "np_array As = map as_complex128 As"

text \<open>
  \<open>np.hstack\<close> joins the arrays row by row (along axis 1); it raises ValueError on no array
  and when the row counts differ.
\<close>

definition np_hstack :: "'a list list list \<Rightarrow> py_error + 'a list list" where
  "np_hstack As =
     (case As of
        [] \<Rightarrow> Inl ValueError
      | A # _ \<Rightarrow>
          if (\<forall>B \<in> set As. length B = length A)
          then Inr (map (\<lambda>i. concat (map (\<lambda>B. B ! i) As)) [0..<length A])
          else Inl ValueError)"

text \<open>Reading and writing one element of a 2-dimensional array.\<close>

definition get2 :: "'a list list \<Rightarrow> nat \<Rightarrow> nat \<Rightarrow> py_error + 'a" where
  "get2 A i j = (if i < length A \<and> j < length (A ! i) then Inr (A ! i ! j) else Inl IndexError)"

definition set2 :: "'a list list \<Rightarrow> nat \<Rightarrow> nat \<Rightarrow> 'a \<Rightarrow> py_error + 'a list list" where
  "set2 A i j v =
     (if i < length A \<and> j < length (A ! i) then Inr (A[i := (A ! i)[j := v]])
      else Inl IndexError)"

definition np_zeros :: "nat \<Rightarrow> nat \<Rightarrow> complex list list" where
  "np_zeros r c = replicate r (replicate c 0)"

section \<open>The sixteen features at cyclic time lag 0\<close>

text \<open>
  The dictionary that \<open>form_features\<close> fills, in insertion order, from its three arrays
  \<open>X_complex\<close>, \<open>X_complex_sqr\<close> and \<open>X_complex_angl\<close>; \<open>c\<close> is \<open>1/vec_len**2\<close>.
\<close>

definition dict_16features_lag0 ::
  "real \<Rightarrow> complex list list \<Rightarrow> complex list list \<Rightarrow> real list list \<Rightarrow> (string \<times> ndarray2) list" where
  "dict_16features_lag0 c X_complex X_complex_sqr X_complex_angl =
    [(''f1'', Complex128 (column (np_mean_axis1 X_complex))),
     (''f2'', Float64 (column (np_mean_axis1 (np_abs X_complex)))),
     (''f3'', Float64 (column (np_mean_axis1 X_complex_angl))),
     (''f4'', Float64 (column (np_mean_axis1 (np_abs X_complex_angl)))),
     (''f5'', Complex128 (column (np_mean_axis1 X_complex_sqr))),
     (''f6'', Float64 (column (np_mean_axis1 (np_square (np_abs X_complex))))),
     (''f7'', Float64 (column (np_mean_axis1 (np_square X_complex_angl)))),
     (''f8'', Float64 (column (np_mean_axis1 (np_square (np_abs X_complex_angl))))),
     (''f9'', Complex128 (column (np_subtract (np_mean_axis1 X_complex_sqr)
          (scalar_mul c (np_square1 (np_sum_axis1 X_complex)))))),
     (''f10'', Float64 (column (np_subtract (np_mean_axis1 (np_square (np_abs X_complex)))
          (scalar_mul c (np_square1 (np_sum_axis1 (np_abs X_complex))))))),
     (''f11'', Float64 (column (np_subtract (np_mean_axis1 (np_square X_complex_angl))
          (scalar_mul c (np_square1 (np_sum_axis1 X_complex_angl)))))),
     (''f12'', Float64 (column (np_subtract (np_mean_axis1 (np_square (np_abs X_complex_angl)))
          (scalar_mul c (np_square1 (np_sum_axis1 (np_abs X_complex_angl))))))),
     (''f13'', Complex128 (column (np_subtract (np_mean_axis1 (np_power X_complex 4))
          (scalar_mul c (pow1 (np_sum_axis1 X_complex_sqr) 2))))),
     (''f14'', Float64 (column (np_subtract (np_mean_axis1 (np_power (np_abs X_complex) 4))
          (scalar_mul c (pow1 (np_sum_axis1 (np_square (np_abs X_complex))) 2))))),
     (''f15'', Float64 (column (np_subtract (np_mean_axis1 (np_power X_complex_angl 4))
          (scalar_mul c (pow1 (np_sum_axis1 (np_square X_complex_angl)) 2))))),
     (''f16'', Float64 (column (np_subtract (np_mean_axis1 (np_power (np_abs X_complex_angl) 4))
          (scalar_mul c (pow1 (np_sum_axis1 (np_square (np_abs X_complex_angl))) 2)))))]"

text \<open>
  The function. The quotient \<open>1/vec_len**2\<close> is a division of Python integers and raises
  on a zero divisor; the source first evaluates it at f9, after eight entries that have no
  effect of their own, so the model evaluates it once before the dictionary. The last
  lines stack the dictionary's values side by side and take absolute values.
\<close>

definition form_features :: "ndarray3 \<Rightarrow> py_error + real list list" where
  "form_features X =
     (let vec_len = shape2 X in
      bind_err (form_features_X_complex X) (\<lambda>X_complex.
      let X_complex_sqr = np_square X_complex;
          X_complex_angl = np_angle X_complex in
      bind_err (py_truediv 1 (vec_len ^ 2)) (\<lambda>c.
      let dict_16features = dict_16features_lag0 c X_complex X_complex_sqr X_complex_angl;
          X_16 = map snd dict_16features in
      bind_err (np_hstack (np_array X_16)) (\<lambda>X_16. Inr (np_abs X_16)))))"

section \<open>The sixteen features at cyclic time lag 8\<close>

text \<open>
  The double loop that fills \<open>X_complex_8lag\<close>, with the lag (the literal 8 of the source)
  as the parameter \<open>T\<close>. The inner loop runs over the columns of one sample, the outer
  loop over the samples; the array under construction is passed along.
\<close>

fun lag_columns ::
  "nat \<Rightarrow> complex list list \<Rightarrow> nat \<Rightarrow> nat \<Rightarrow> nat list \<Rightarrow> complex list list
     \<Rightarrow> py_error + complex list list" where
  "lag_columns T X_complex vec_len samp_num [] W = Inr W"
| "lag_columns T X_complex vec_len samp_num (clmn # rest) W =
     bind_err (py_mod (clmn + T) vec_len) (\<lambda>shift_by.
     bind_err (get2 X_complex samp_num clmn) (\<lambda>a.
     bind_err (get2 X_complex samp_num shift_by) (\<lambda>b.
     bind_err (set2 W samp_num clmn (a * b)) (\<lambda>W'.
     lag_columns T X_complex vec_len samp_num rest W'))))"

fun lag_samples ::
  "nat \<Rightarrow> complex list list \<Rightarrow> nat \<Rightarrow> nat list \<Rightarrow> complex list list
     \<Rightarrow> py_error + complex list list" where
  "lag_samples T X_complex vec_len [] W = Inr W"
| "lag_samples T X_complex vec_len (samp_num # rest) W =
     bind_err (lag_columns T X_complex vec_len samp_num [0..<vec_len] W) (\<lambda>W'.
     lag_samples T X_complex vec_len rest W')"

definition lagged_product ::
  "nat \<Rightarrow> complex list list \<Rightarrow> nat \<Rightarrow> nat \<Rightarrow> py_error + complex list list" where
  "lagged_product T X_complex n_samples vec_len =
     lag_samples T X_complex vec_len [0..<n_samples] (np_zeros n_samples vec_len)"

text \<open>
  The dictionary of \<open>form_next16_features\<close>. Its entry f31 is written with \<open>1/vec_len\<close>
  times a sum where the others use \<open>np.mean\<close>; that quotient is evaluated after
  \<open>1/vec_len**2\<close> (at f25), so it cannot be the first division to raise.
\<close>

definition dict_16features_lag8 ::
  "nat \<Rightarrow> real \<Rightarrow> complex list list \<Rightarrow> complex list list \<Rightarrow> real list list
     \<Rightarrow> (string \<times> ndarray2) list" where
  "dict_16features_lag8 vec_len c X_complex_8lag X_complex8_sqr X_complex8_angl =
    [(''f17'', Complex128 (column (np_mean_axis1 X_complex_8lag))),
     (''f18'', Float64 (column (np_mean_axis1 (np_abs X_complex_8lag)))),
     (''f19'', Float64 (column (np_mean_axis1 X_complex8_angl))),
     (''f20'', Float64 (column (np_mean_axis1 (np_abs X_complex8_angl)))),
     (''f21'', Complex128 (column (np_mean_axis1 X_complex8_sqr))),
     (''f22'', Float64 (column (np_mean_axis1 (np_square (np_abs X_complex_8lag))))),
     (''f23'', Float64 (column (np_mean_axis1 (np_square X_complex8_angl)))),
     (''f24'', Float64 (column (np_mean_axis1 (np_square (np_abs X_complex8_angl))))),
     (''f25'', Complex128 (column (np_subtract (np_mean_axis1 X_complex8_sqr)
          (scalar_mul c (np_square1 (np_sum_axis1 X_complex_8lag)))))),
     (''f26'', Float64 (column (np_subtract (np_mean_axis1 (np_square (np_abs X_complex_8lag)))
          (scalar_mul c (np_square1 (np_sum_axis1 (np_abs X_complex_8lag))))))),
     (''f27'', Float64 (column (np_subtract (np_mean_axis1 (np_square X_complex8_angl))
          (scalar_mul c (np_square1 (np_sum_axis1 X_complex8_angl)))))),
     (''f28'', Float64 (column (np_subtract (np_mean_axis1 (np_square (np_abs X_complex8_angl)))
          (scalar_mul c (np_square1 (np_sum_axis1 (np_abs X_complex8_angl))))))),
     (''f29'', Complex128 (column (np_subtract (np_mean_axis1 (np_power X_complex_8lag 4))
          (scalar_mul c (pow1 (np_sum_axis1 X_complex8_sqr) 2))))),
     (''f30'', Float64 (column (np_subtract (np_mean_axis1 (np_power (np_abs X_complex_8lag) 4))
          (scalar_mul c (pow1 (np_sum_axis1 (np_square (np_abs X_complex_8lag))) 2))))),
     (''f31'', Float64 (column (np_subtract
          (scalar_mul (1 / real vec_len) (np_sum_axis1 (np_power X_complex8_angl 4)))
          (scalar_mul c (pow1 (np_sum_axis1 (np_square X_complex8_angl)) 2))))),
     (''f32'', Float64 (column (np_subtract (np_mean_axis1 (np_power (np_abs X_complex8_angl) 4))
          (scalar_mul c (pow1 (np_sum_axis1 (np_square (np_abs X_complex8_angl))) 2)))))]"

definition form_next16_features :: "ndarray3 \<Rightarrow> py_error + real list list" where
  "form_next16_features X =
     (let n_samples = shape0 X; vec_len = shape2 X in
      bind_err (form_next16_features_X_complex X) (\<lambda>X_complex.
      bind_err (lagged_product 8 X_complex n_samples vec_len) (\<lambda>X_complex_8lag.
      let X_complex8_sqr = np_square X_complex_8lag;
          X_complex8_angl = np_angle X_complex_8lag in
      bind_err (py_truediv 1 (vec_len ^ 2)) (\<lambda>c.
      let dict_16features =
            dict_16features_lag8 vec_len c X_complex_8lag X_complex8_sqr X_complex8_angl;
          X_16 = map snd dict_16features in
      bind_err (np_hstack (np_array X_16)) (\<lambda>X_16. Inr (np_abs X_16))))))"



section \<open>The statistics as the specification states them\<close>

text \<open>
  The table of the sixteen statistics of one complex sequence \<open>X\<close> of length \<open>n\<close>, in its
  fixed order, written from the specification's formulas: means and sums over the
  sequence, its magnitudes and its arguments. Statistics 1, 5, 9 and 13 are complex, the
  others real.
\<close>

definition mean :: "'a::real_normed_field list \<Rightarrow> 'a" where
  "mean xs = sum_list xs / of_nat (length xs)"

datatype stat_value = RealStat real | ComplexStat complex

fun stat_abs :: "stat_value \<Rightarrow> real" where
  "stat_abs (RealStat x) = \<bar>x\<bar>"
| "stat_abs (ComplexStat z) = cmod z"

definition spec_statistics :: "complex list \<Rightarrow> stat_value list" where
  "spec_statistics X =
    (let n = real (length X);
         mag = map cmod X;
         ang = map Arg X;
         absang = map (\<lambda>a. \<bar>Arg a\<bar>) X in
     [ComplexStat (mean X),
      RealStat (mean mag),
      RealStat (mean ang),
      RealStat (mean absang),
      ComplexStat (mean (map (\<lambda>x. x ^ 2) X)),
      RealStat (mean (map (\<lambda>x. x ^ 2) mag)),
      RealStat (mean (map (\<lambda>x. x ^ 2) ang)),
      RealStat (mean (map (\<lambda>x. x ^ 2) absang)),
      ComplexStat (mean (map (\<lambda>x. x ^ 2) X) - complex_of_real (1 / n ^ 2) * (sum_list X) ^ 2),
      RealStat (mean (map (\<lambda>x. x ^ 2) mag) - (1 / n ^ 2) * (sum_list mag) ^ 2),
      RealStat (mean (map (\<lambda>x. x ^ 2) ang) - (1 / n ^ 2) * (sum_list ang) ^ 2),
      RealStat (mean (map (\<lambda>x. x ^ 2) absang) - (1 / n ^ 2) * (sum_list absang) ^ 2),
      ComplexStat (mean (map (\<lambda>x. x ^ 4) X)
                     - complex_of_real (1 / n ^ 2) * (sum_list (map (\<lambda>x. x ^ 2) X)) ^ 2),
      RealStat (mean (map (\<lambda>x. x ^ 4) mag) - (1 / n ^ 2) * (sum_list (map (\<lambda>x. x ^ 2) mag)) ^ 2),
      RealStat (mean (map (\<lambda>x. x ^ 4) ang) - (1 / n ^ 2) * (sum_list (map (\<lambda>x. x ^ 2) ang)) ^ 2),
      RealStat (mean (map (\<lambda>x. x ^ 4) absang)
                  - (1 / n ^ 2) * (sum_list (map (\<lambda>x. x ^ 2) absang)) ^ 2)])"

text \<open>The lagged product as the specification states it: \<open>w[k] = z[k] * z[(k + T) mod L]\<close>.\<close>

definition spec_lagged :: "nat \<Rightarrow> complex list \<Rightarrow> complex list" where
  "spec_lagged T z = map (\<lambda>k. z ! k * z ! ((k + T) mod length z)) [0..<length z]"


section \<open>Example batches\<close>

text \<open>
  The batch of the specification's end-to-end scenario: two samples of length 4, a
  rotating unit vector and an all-zero sample.
\<close>

definition example_batch :: ndarray3 where
  "example_batch =
     \<lparr>shape0 = 2, shape1 = 2, shape2 = 4,
      elems = [[[1, 0, -1, 0], [0, 1, 0, -1]], [[0, 0, 0, 0], [0, 0, 0, 0]]]\<rparr>"

text \<open>The same two samples with a third channel row added to each.\<close>

definition three_channel_batch :: ndarray3 where
  "three_channel_batch =
     \<lparr>shape0 = 2, shape1 = 3, shape2 = 4,
      elems = [[[1, 0, -1, 0], [0, 1, 0, -1], [5, 6, 7, 8]],
               [[0, 0, 0, 0], [0, 0, 0, 0], [9, 9, 9, 9]]]\<rparr>"

text \<open>One sample with a single channel row.\<close>

definition one_channel_batch :: ndarray3 where
  "one_channel_batch = \<lparr>shape0 = 1, shape1 = 1, shape2 = 4, elems = [[[1, 0, -1, 0]]]\<rparr>"

section \<open>Lemmas on the building blocks\<close>

lemma bind_err_simps [simp]:
  "bind_err (Inl e) f = Inl e" "bind_err (Inr v) f = f v"
  by (simp_all add: bind_err_def)

lemma sequence_err_all_Inr:
  "(\<And>x. x \<in> set xs \<Longrightarrow> f x = Inr (g x)) \<Longrightarrow> sequence_err (map f xs) = Inr (map g xs)"
  by (induction xs) simp_all

lemma sequence_err_all_Inl:
  "xs \<noteq> [] \<Longrightarrow> (\<And>x. x \<in> set xs \<Longrightarrow> f x = Inl e) \<Longrightarrow> sequence_err (map f xs) = Inl e"
  by (cases xs) simp_all

lemma concat_singletons: "concat (map (\<lambda>x. [x]) xs) = xs"
  by (induction xs) simp_all

lemma take_drop_concat_row:
  "(\<And>r. r \<in> set rows \<Longrightarrow> length r = c) \<Longrightarrow> i < length rows \<Longrightarrow>
   take c (drop (i * c) (concat rows)) = rows ! i"
proof (induction rows arbitrary: i)
  case Nil
  then show ?case by simp
next
  case (Cons r rows)
  show ?case
  proof (cases i)
    case 0
    with Cons.prems show ?thesis by simp
  next
    case (Suc j)
    with Cons.prems have "j < length rows" by simp
    with Cons have "take c (drop (j * c) (concat rows)) = rows ! j" by simp
    with Suc Cons.prems show ?thesis by simp
  qed
qed

lemma length_concat_rows:
  "(\<And>r. r \<in> set rows \<Longrightarrow> length r = c) \<Longrightarrow> length (concat rows) = length rows * c"
  by (induction rows) simp_all

lemma np_reshape_rows:
  assumes "\<And>r. r \<in> set rows \<Longrightarrow> length r = c"
  shows "np_reshape (map (\<lambda>x. [x]) (concat rows)) (length rows) c = Inr rows"
proof -
  have "map (\<lambda>i. take c (drop (i * c) (concat rows))) [0..<length rows] = map (\<lambda>i. rows ! i) [0..<length rows]"
    using assms by (simp add: take_drop_concat_row)
  then show ?thesis
    using assms by (simp add: np_reshape_def concat_singletons length_concat_rows map_nth)
qed

lemma map_nth_fun: "map (\<lambda>i. f (xs ! i)) [0..<length xs] = map f xs"
  by (rule nth_equalityI) simp_all

lemma py_complex_ok:
  "s < shape0 X \<Longrightarrow> 2 \<le> shape1 X \<Longrightarrow> k < shape2 X \<Longrightarrow>
   py_complex X s k = Inr (Complex (elems X ! s ! 0 ! k) (elems X ! s ! 1 ! k))"
  by (simp add: py_complex_def item3_def)

lemma py_complex_fail:
  "shape1 X < 2 \<Longrightarrow> py_complex X s k = Inl IndexError"
proof -
  assume a: "shape1 X < 2"
  then have 1: "item3 X s 1 k = Inl IndexError" by (simp add: item3_def)
  show ?thesis
  proof (cases "item3 X s 0 k")
    case (Inl e)
    then have "e = IndexError" by (simp add: item3_def split: if_splits)
    with Inl show ?thesis by (simp add: py_complex_def)
  next
    case (Inr v)
    with 1 show ?thesis by (simp add: py_complex_def)
  qed
qed

lemma comprehension_ok:
  assumes "2 \<le> shape1 X"
  shows "sequence_err (map (\<lambda>(samp_num, column). py_complex X samp_num column)
           (List.product [0..<shape0 X] [0..<shape2 X]))
         = Inr (concat (map (\<lambda>s. map (\<lambda>k. Complex (elems X ! s ! 0 ! k) (elems X ! s ! 1 ! k))
                  [0..<shape2 X]) [0..<shape0 X]))"
proof -
  have "sequence_err (map (\<lambda>(samp_num, column). py_complex X samp_num column)
           (List.product [0..<shape0 X] [0..<shape2 X]))
       = Inr (map (\<lambda>(s, k). Complex (elems X ! s ! 0 ! k) (elems X ! s ! 1 ! k))
           (List.product [0..<shape0 X] [0..<shape2 X]))"
    using assms by (intro sequence_err_all_Inr) (auto simp add: py_complex_ok)
  then show ?thesis
    by (simp add: product_concat_map map_concat comp_def)
qed

lemma X_complex_ok:
  assumes "wf3 X" "2 \<le> shape1 X" "1 \<le> shape0 X" "1 \<le> shape2 X"
  shows "form_features_X_complex X = Inr (raw_z X)"
proof -
  let ?rows = "map (\<lambda>s. map (\<lambda>k. Complex (elems X ! s ! 0 ! k) (elems X ! s ! 1 ! k))
                  [0..<shape2 X]) [0..<shape0 X]"
  have ne: "concat ?rows \<noteq> []"
    using assms(3,4) by (auto simp add: upt_conv_Cons)
  have len: "length ?rows = shape0 X" by simp
  have rs: "np_reshape (map (\<lambda>x. [x]) (concat ?rows)) (length ?rows) (shape2 X) = Inr ?rows"
    by (rule np_reshape_rows) auto
  have eq: "?rows = raw_z X"
    using assms(1) by (simp add: raw_z_def sample_z_def wf3_def list_eq_iff_nth_eq)
  have "form_features_X_complex X =
          bind_err (np_vstack (concat ?rows)) (\<lambda>v. np_reshape v (shape0 X) (shape2 X))"
    unfolding form_features_X_complex_def Let_def comprehension_ok [OF assms(2)] by simp
  also have "\<dots> = np_reshape (map (\<lambda>x. [x]) (concat ?rows)) (shape0 X) (shape2 X)"
    using ne unfolding np_vstack_def by simp
  also have "\<dots> = Inr ?rows" using rs len by simp
  finally show ?thesis using eq by simp
qed

lemma map2_same: "map2 h (map f xs) (map g xs) = map (\<lambda>x. h (f x) (g x)) xs"
  by (induction xs) simp_all

lemma np_hstack_columns:
  assumes "gs \<noteq> []"
  shows "np_hstack (map (\<lambda>g. column (map g Z)) gs) = Inr (map (\<lambda>z. map (\<lambda>g. g z) gs) Z)"
proof -
  obtain g gs' where gs: "gs = g # gs'" using assms by (cases gs) auto
  have row: "concat (map (\<lambda>B. B ! i) (map (\<lambda>g. column (map g Z)) gs)) = map (\<lambda>g. g (Z ! i)) gs"
    if "i < length Z" for i
    using that by (induction gs) (simp_all add: column_def)
  have "map (\<lambda>i. concat (map (\<lambda>B. B ! i) (map (\<lambda>g. column (map g Z)) gs))) [0..<length Z]
        = map (\<lambda>i. map (\<lambda>g. g (Z ! i)) gs) [0..<length Z]"
    using row by simp
  also have "\<dots> = map (\<lambda>z. map (\<lambda>g. g z) gs) Z"
    by (rule map_nth_fun)
  finally have m: "map (\<lambda>i. concat (map (\<lambda>B. B ! i) (map (\<lambda>g. column (map g Z)) gs))) [0..<length Z]
        = map (\<lambda>z. map (\<lambda>g. g z) gs) Z" .
  have "np_hstack (map (\<lambda>g. column (map g Z)) gs) =
      Inr (map (\<lambda>i. concat (map (\<lambda>B. B ! i) (map (\<lambda>g. column (map g Z)) gs))) [0..<length Z])"
    unfolding np_hstack_def gs by (simp add: column_def)
  with m show ?thesis by simp
qed

lemma lag0_columns:
  "np_array (map snd (dict_16features_lag0 c Z (np_square Z) (np_angle Z))) =
   map (\<lambda>g. column (map g Z))
    [\<lambda>z. sum_list z / of_nat (length z),
     \<lambda>z. complex_of_real (sum_list (map norm z) / real (length z)),
     \<lambda>z. complex_of_real (sum_list (map Arg z) / real (length z)),
     \<lambda>z. complex_of_real (sum_list (map (\<lambda>a. norm (Arg a)) z) / real (length z)),
     \<lambda>z. sum_list (map (\<lambda>x. x ^ 2) z) / of_nat (length z),
     \<lambda>z. complex_of_real (sum_list (map (\<lambda>x. (norm x) ^ 2) z) / real (length z)),
     \<lambda>z. complex_of_real (sum_list (map (\<lambda>x. (Arg x) ^ 2) z) / real (length z)),
     \<lambda>z. complex_of_real (sum_list (map (\<lambda>x. (norm (Arg x)) ^ 2) z) / real (length z)),
     \<lambda>z. sum_list (map (\<lambda>x. x ^ 2) z) / of_nat (length z) - of_real c * (sum_list z) ^ 2,
     \<lambda>z. complex_of_real (sum_list (map (\<lambda>x. (norm x) ^ 2) z) / real (length z)
            - c * (sum_list (map norm z)) ^ 2),
     \<lambda>z. complex_of_real (sum_list (map (\<lambda>x. (Arg x) ^ 2) z) / real (length z)
            - c * (sum_list (map Arg z)) ^ 2),
     \<lambda>z. complex_of_real (sum_list (map (\<lambda>x. (norm (Arg x)) ^ 2) z) / real (length z)
            - c * (sum_list (map (\<lambda>a. norm (Arg a)) z)) ^ 2),
     \<lambda>z. sum_list (map (\<lambda>x. x ^ 4) z) / of_nat (length z)
            - of_real c * (sum_list (map (\<lambda>x. x ^ 2) z)) ^ 2,
     \<lambda>z. complex_of_real (sum_list (map (\<lambda>x. (norm x) ^ 4) z) / real (length z)
            - c * (sum_list (map (\<lambda>x. (norm x) ^ 2) z)) ^ 2),
     \<lambda>z. complex_of_real (sum_list (map (\<lambda>x. (Arg x) ^ 4) z) / real (length z)
            - c * (sum_list (map (\<lambda>x. (Arg x) ^ 2) z)) ^ 2),
     \<lambda>z. complex_of_real (sum_list (map (\<lambda>x. (norm (Arg x)) ^ 4) z) / real (length z)
            - c * (sum_list (map (\<lambda>x. (norm (Arg x)) ^ 2) z)) ^ 2)]"
  by (simp add: dict_16features_lag0_def np_array_def column_def np_mean_axis1_def
      np_abs_def np_square_def np_angle_def np_power_def np_sum_axis1_def np_square1_def
      pow1_def scalar_mul_def np_subtract_def map2_same o_def del: real_norm_def)

lemma lag0_core:
  assumes len: "\<And>z. z \<in> set Z \<Longrightarrow> length z = L"
  shows "bind_err (np_hstack (np_array (map snd
            (dict_16features_lag0 (1 / real (L ^ 2)) Z (np_square Z) (np_angle Z)))))
           (\<lambda>X_16. Inr (np_abs X_16))
         = Inr (map (\<lambda>z. map stat_abs (spec_statistics z)) Z)"
proof -
  have row: "map (\<lambda>g. norm (g z)) gs = map stat_abs (spec_statistics z)"
    if "length z = L" and
      "gs = [\<lambda>z. sum_list z / of_nat (length z),
     \<lambda>z. complex_of_real (sum_list (map norm z) / real (length z)),
     \<lambda>z. complex_of_real (sum_list (map Arg z) / real (length z)),
     \<lambda>z. complex_of_real (sum_list (map (\<lambda>a. norm (Arg a)) z) / real (length z)),
     \<lambda>z. sum_list (map (\<lambda>x. x ^ 2) z) / of_nat (length z),
     \<lambda>z. complex_of_real (sum_list (map (\<lambda>x. (norm x) ^ 2) z) / real (length z)),
     \<lambda>z. complex_of_real (sum_list (map (\<lambda>x. (Arg x) ^ 2) z) / real (length z)),
     \<lambda>z. complex_of_real (sum_list (map (\<lambda>x. (norm (Arg x)) ^ 2) z) / real (length z)),
     \<lambda>z. sum_list (map (\<lambda>x. x ^ 2) z) / of_nat (length z) - of_real (1 / real (L ^ 2)) * (sum_list z) ^ 2,
     \<lambda>z. complex_of_real (sum_list (map (\<lambda>x. (norm x) ^ 2) z) / real (length z)
            - (1 / real (L ^ 2)) * (sum_list (map norm z)) ^ 2),
     \<lambda>z. complex_of_real (sum_list (map (\<lambda>x. (Arg x) ^ 2) z) / real (length z)
            - (1 / real (L ^ 2)) * (sum_list (map Arg z)) ^ 2),
     \<lambda>z. complex_of_real (sum_list (map (\<lambda>x. (norm (Arg x)) ^ 2) z) / real (length z)
            - (1 / real (L ^ 2)) * (sum_list (map (\<lambda>a. norm (Arg a)) z)) ^ 2),
     \<lambda>z. sum_list (map (\<lambda>x. x ^ 4) z) / of_nat (length z)
            - of_real (1 / real (L ^ 2)) * (sum_list (map (\<lambda>x. x ^ 2) z)) ^ 2,
     \<lambda>z. complex_of_real (sum_list (map (\<lambda>x. (norm x) ^ 4) z) / real (length z)
            - (1 / real (L ^ 2)) * (sum_list (map (\<lambda>x. (norm x) ^ 2) z)) ^ 2),
     \<lambda>z. complex_of_real (sum_list (map (\<lambda>x. (Arg x) ^ 4) z) / real (length z)
            - (1 / real (L ^ 2)) * (sum_list (map (\<lambda>x. (Arg x) ^ 2) z)) ^ 2),
     \<lambda>z. complex_of_real (sum_list (map (\<lambda>x. (norm (Arg x)) ^ 4) z) / real (length z)
            - (1 / real (L ^ 2)) * (sum_list (map (\<lambda>x. (norm (Arg x)) ^ 2) z)) ^ 2)]"
    for z gs
    unfolding that(2) using that(1)
    apply (simp only: list.map norm_of_real)
    apply (simp add: spec_statistics_def mean_def o_def Let_def)
    done
  show ?thesis
    unfolding lag0_columns
    apply (subst np_hstack_columns)
     apply simp
    apply (simp only: bind_err_simps np_abs_def map_map o_def sum.inject)
    apply (rule map_cong [OF refl])
    apply (rule row [OF len refl])
    apply assumption
    done
qed

lemma lag_columns_ok:
  assumes "s < length Xc" "length (Xc ! s) = L" "s < length W" "length (W ! s) = L"
    and "\<And>c. c \<in> set cs \<Longrightarrow> c < L"
  shows "lag_columns T Xc L s cs W =
         Inr (W[s := map (\<lambda>c. if c \<in> set cs then Xc ! s ! c * Xc ! s ! ((c + T) mod L)
                               else W ! s ! c) [0..<L]])"
  using assms(3-)
proof (induction cs arbitrary: W)
  case Nil
  have "map (\<lambda>c. W ! s ! c) [0..<L] = W ! s"
    using Nil.prems(2) map_nth [of "W ! s"] by simp
  then show ?case by simp
next
  case (Cons c rest)
  let ?g = "\<lambda>c. Xc ! s ! c * Xc ! s ! ((c + T) mod L)"
  let ?W1 = "W[s := (W ! s)[c := ?g c]]"
  have c: "c < L" using Cons.prems(3) by simp
  then have L: "L \<noteq> 0" by simp
  have m: "(c + T) mod L < L" using L by simp
  have W1: "s < length ?W1" "length (?W1 ! s) = L"
    using Cons.prems(1,2) by simp_all
  have IH: "lag_columns T Xc L s rest ?W1 =
      Inr (?W1[s := map (\<lambda>c'. if c' \<in> set rest then ?g c' else ?W1 ! s ! c') [0..<L]])"
    using Cons.IH [OF W1] Cons.prems(3) by simp
  have rows: "map (\<lambda>c'. if c' \<in> set rest then ?g c' else ?W1 ! s ! c') [0..<L]
            = map (\<lambda>c'. if c' \<in> set (c # rest) then ?g c' else W ! s ! c') [0..<L]"
    using Cons.prems(1,2) by (auto simp add: nth_list_update)
  have step: "lag_columns T Xc L s (c # rest) W = lag_columns T Xc L s rest ?W1"
    using c m L assms(1,2) Cons.prems(1,2)
    by (simp add: py_mod_def get2_def set2_def)
  show ?case
    unfolding step IH rows by simp
qed

lemma lag_columns_all:
  assumes "s < length Xc" "length (Xc ! s) = L" "s < length W" "length (W ! s) = L"
  shows "lag_columns T Xc L s [0..<L] W = Inr (W[s := spec_lagged T (Xc ! s)])"
proof -
  have "lag_columns T Xc L s [0..<L] W =
         Inr (W[s := map (\<lambda>c. if c \<in> set [0..<L] then Xc ! s ! c * Xc ! s ! ((c + T) mod L)
                               else W ! s ! c) [0..<L]])"
    by (rule lag_columns_ok [OF assms]) simp
  also have "map (\<lambda>c. if c \<in> set [0..<L] then Xc ! s ! c * Xc ! s ! ((c + T) mod L)
                               else W ! s ! c) [0..<L] = spec_lagged T (Xc ! s)"
    using assms(2) by (simp add: spec_lagged_def)
  finally show ?thesis .
qed

lemma lag_samples_ok:
  assumes "length Xc = N" "\<And>z. z \<in> set Xc \<Longrightarrow> length z = L"
    and "length W = N" "\<And>w. w \<in> set W \<Longrightarrow> length w = L"
    and "\<And>s. s \<in> set ss \<Longrightarrow> s < N"
  shows "lag_samples T Xc L ss W =
         Inr (map (\<lambda>i. if i \<in> set ss then spec_lagged T (Xc ! i) else W ! i) [0..<N])"
  using assms(3-)
proof (induction ss arbitrary: W)
  case Nil
  then show ?case using map_nth [of W] by simp
next
  case (Cons s rest)
  let ?W1 = "W[s := spec_lagged T (Xc ! s)]"
  have s: "s < N" using Cons.prems(3) by simp
  have Ls: "length (Xc ! s) = L" using assms(1,2) s by simp
  have step: "lag_columns T Xc L s [0..<L] W = Inr ?W1"
    using lag_columns_all [of s Xc L W T] s assms(1) Ls Cons.prems(1,2) by simp
  have W1: "length ?W1 = N" using Cons.prems(1) by simp
  have W1r: "length w = L" if "w \<in> set ?W1" for w
  proof -
    from that have "w \<in> insert (spec_lagged T (Xc ! s)) (set W)"
      using set_update_subset_insert by fastforce
    then show ?thesis using Cons.prems(2) Ls by (auto simp add: spec_lagged_def)
  qed
  have IH: "lag_samples T Xc L rest ?W1 =
      Inr (map (\<lambda>i. if i \<in> set rest then spec_lagged T (Xc ! i) else ?W1 ! i) [0..<N])"
    using Cons.IH [OF W1 W1r] Cons.prems(3) by simp
  have rows: "map (\<lambda>i. if i \<in> set rest then spec_lagged T (Xc ! i) else ?W1 ! i) [0..<N]
      = map (\<lambda>i. if i \<in> set (s # rest) then spec_lagged T (Xc ! i) else W ! i) [0..<N]"
    using Cons.prems(1) by (auto simp add: nth_list_update)
  show ?case
    using step IH rows by simp
qed

lemma lagged_product_ok:
  assumes "length Xc = N" "\<And>z. z \<in> set Xc \<Longrightarrow> length z = L"
  shows "lagged_product T Xc N L = Inr (map (spec_lagged T) Xc)"
proof -
  have "lagged_product T Xc N L =
      Inr (map (\<lambda>i. if i \<in> set [0..<N] then spec_lagged T (Xc ! i) else np_zeros N L ! i) [0..<N])"
    unfolding lagged_product_def
    by (rule lag_samples_ok [OF assms]) (auto simp add: np_zeros_def)
  also have "map (\<lambda>i. if i \<in> set [0..<N] then spec_lagged T (Xc ! i) else np_zeros N L ! i) [0..<N]
      = map (\<lambda>i. spec_lagged T (Xc ! i)) [0..<N]"
    by simp
  also have "\<dots> = map (spec_lagged T) Xc"
    using map_nth_fun [of "spec_lagged T" Xc] assms(1) by simp
  finally show ?thesis .
qed

lemma product_Nil2: "List.product xs [] = []"
  by (induction xs) simp_all

lemma comprehension_fail:
  assumes "shape1 X < 2" "1 \<le> shape0 X" "1 \<le> shape2 X"
  shows "sequence_err (map (\<lambda>(samp_num, column). py_complex X samp_num column)
           (List.product [0..<shape0 X] [0..<shape2 X])) = Inl IndexError"
proof -
  have "List.product [0..<shape0 X] [0..<shape2 X] \<noteq> []"
    using assms(2,3) by (auto simp add: upt_conv_Cons)
  then show ?thesis
    using assms(1) by (intro sequence_err_all_Inl) (auto simp add: py_complex_fail)
qed

lemma X_complex_empty:
  assumes "shape0 X = 0 \<or> shape2 X = 0"
  shows "form_features_X_complex X = Inl ValueError"
proof -
  have "List.product [0..<shape0 X] [0..<shape2 X] = []"
    using assms by (auto simp add: product_Nil2)
  then show ?thesis
    by (simp add: form_features_X_complex_def np_vstack_def)
qed

lemma X_complex_few_rows:
  assumes "shape1 X < 2" "1 \<le> shape0 X" "1 \<le> shape2 X"
  shows "form_features_X_complex X = Inl IndexError"
  unfolding form_features_X_complex_def Let_def comprehension_fail [OF assms] by simp

lemma X_complex_same: "form_next16_features_X_complex X = form_features_X_complex X"
  by (simp add: form_next16_features_X_complex_def form_features_X_complex_def)

lemma raw_z_length: "wf3 X \<Longrightarrow> length (raw_z X) = shape0 X"
  by (simp add: raw_z_def wf3_def)

lemma raw_z_rows: "z \<in> set (raw_z X) \<Longrightarrow> length z = shape2 X"
  by (auto simp add: raw_z_def sample_z_def)

lemma py_truediv_sq: "1 \<le> L \<Longrightarrow> py_truediv 1 (L ^ 2) = Inr (1 / real (L ^ 2))"
  by (simp add: py_truediv_def)

lemma form_features_ok:
  assumes "wf3 X" "2 \<le> shape1 X" "1 \<le> shape0 X" "1 \<le> shape2 X"
  shows "form_features X = Inr (map (\<lambda>z. map stat_abs (spec_statistics z)) (raw_z X))"
  unfolding form_features_def Let_def X_complex_ok [OF assms] bind_err_simps
    py_truediv_sq [OF assms(4)]
  by (rule lag0_core) (rule raw_z_rows)

lemma mean_as_scaled_sum:
  assumes "\<And>r. r \<in> set A \<Longrightarrow> length r = L"
  shows "scalar_mul (1 / real L) (np_sum_axis1 A) = np_mean_axis1 A"
  using assms by (simp add: scalar_mul_def np_sum_axis1_def np_mean_axis1_def)

lemma np_angle_rows:
  "(\<And>z. z \<in> set Z \<Longrightarrow> length z = L) \<Longrightarrow> r \<in> set (np_power (np_angle Z) p) \<Longrightarrow> length r = L"
  by (auto simp add: np_angle_def np_power_def)

lemma dict_lag8_values:
  assumes "\<And>z. z \<in> set W \<Longrightarrow> length z = L"
  shows "map snd (dict_16features_lag8 L c W (np_square W) (np_angle W))
       = map snd (dict_16features_lag0 c W (np_square W) (np_angle W))"
proof -
  have "scalar_mul (1 / real L) (np_sum_axis1 (np_power (np_angle W) 4))
        = np_mean_axis1 (np_power (np_angle W) 4)"
    by (rule mean_as_scaled_sum) (rule np_angle_rows [OF assms])
  then show ?thesis
    by (simp add: dict_16features_lag8_def dict_16features_lag0_def)
qed

lemma spec_lagged_rows:
  "(\<And>z. z \<in> set Z \<Longrightarrow> length z = L) \<Longrightarrow> w \<in> set (map (spec_lagged T) Z) \<Longrightarrow> length w = L"
  by (auto simp add: spec_lagged_def)

lemma form_next16_features_ok:
  assumes "wf3 X" "2 \<le> shape1 X" "1 \<le> shape0 X" "1 \<le> shape2 X"
  shows "form_next16_features X =
         Inr (map (\<lambda>z. map stat_abs (spec_statistics (spec_lagged 8 z))) (raw_z X))"
proof -
  let ?W = "map (spec_lagged 8) (raw_z X)"
  have rows: "\<And>w. w \<in> set ?W \<Longrightarrow> length w = shape2 X"
    by (rule spec_lagged_rows [OF raw_z_rows])
  have lag: "lagged_product 8 (raw_z X) (shape0 X) (shape2 X) = Inr ?W"
    by (rule lagged_product_ok [OF raw_z_length [OF assms(1)] raw_z_rows])
  have vals: "map snd (dict_16features_lag8 (shape2 X) (1 / real ((shape2 X) ^ 2)) ?W
                  (np_square ?W) (np_angle ?W))
       = map snd (dict_16features_lag0 (1 / real ((shape2 X) ^ 2)) ?W (np_square ?W) (np_angle ?W))"
    by (rule dict_lag8_values) (rule rows)
  have "form_next16_features X =
      bind_err (np_hstack (np_array (map snd
            (dict_16features_lag0 (1 / real ((shape2 X) ^ 2)) ?W (np_square ?W) (np_angle ?W)))))
           (\<lambda>X_16. Inr (np_abs X_16))"
    unfolding form_next16_features_def Let_def X_complex_same X_complex_ok [OF assms]
      bind_err_simps lag py_truediv_sq [OF assms(4)] vals ..
  also have "\<dots> = Inr (map (\<lambda>z. map stat_abs (spec_statistics z)) ?W)"
    by (rule lag0_core) (rule rows)
  finally show ?thesis by (simp add: o_def)
qed

lemma form_features_empty:
  "shape0 X = 0 \<or> shape2 X = 0 \<Longrightarrow> form_features X = Inl ValueError"
  by (simp add: form_features_def X_complex_empty)

lemma form_features_few_rows:
  "shape1 X < 2 \<Longrightarrow> 1 \<le> shape0 X \<Longrightarrow> 1 \<le> shape2 X \<Longrightarrow> form_features X = Inl IndexError"
  by (simp add: form_features_def X_complex_few_rows)

lemma form_next16_features_empty:
  "shape0 X = 0 \<or> shape2 X = 0 \<Longrightarrow> form_next16_features X = Inl ValueError"
  by (simp add: form_next16_features_def X_complex_same X_complex_empty)

lemma form_next16_features_few_rows:
  "shape1 X < 2 \<Longrightarrow> 1 \<le> shape0 X \<Longrightarrow> 1 \<le> shape2 X \<Longrightarrow>
   form_next16_features X = Inl IndexError"
  by (simp add: form_next16_features_def X_complex_same X_complex_few_rows)

lemma extractors_fail_iff_no_reading:
  assumes "wf3 X" and "2 \<le> shape1 X" and "1 \<le> shape0 X"
  shows "(isl (form_features X) \<longleftrightarrow> shape2 X = 0) \<and>
         (isl (form_next16_features X) \<longleftrightarrow> shape2 X = 0) \<and>
         form_features X \<noteq> Inl ZeroDivisionError \<and>
         form_next16_features X \<noteq> Inl ZeroDivisionError"
proof (cases "shape2 X = 0")
  case True
  then show ?thesis
    by (simp add: form_features_empty form_next16_features_empty)
next
  case False
  then have p: "1 \<le> shape2 X" by simp
  show ?thesis
    unfolding form_features_ok [OF assms(1,2,3) p] form_next16_features_ok [OF assms(1,2,3) p]
    using False by simp
qed

lemma raw_z_nth:
  "wf3 X \<Longrightarrow> n < shape0 X \<Longrightarrow> k < shape2 X \<Longrightarrow>
   raw_z X ! n ! k = Complex (elems X ! n ! 0 ! k) (elems X ! n ! 1 ! k)"
  by (simp add: raw_z_def sample_z_def wf3_def)

lemma raw_z_nth_length: "wf3 X \<Longrightarrow> n < shape0 X \<Longrightarrow> length (raw_z X ! n) = shape2 X"
  by (simp add: raw_z_def sample_z_def wf3_def)

lemma wf3_example_batch: "wf3 example_batch"
  by (simp add: wf3_def example_batch_def)

lemma wf3_three_channel_batch: "wf3 three_channel_batch"
  by (simp add: wf3_def three_channel_batch_def)

section \<open>The claims\<close>

text \<open>
  Claim C10. The construction of the complex signal written out in \<open>form_features\<close> and
  the one written out in \<open>form_next16_features\<close> return the same result on every batch;
  on a batch of shape \<open>(N, 2, L)\<close> with \<open>N \<ge> 1\<close> and \<open>L \<ge> 1\<close> both return the \<open>(N, L)\<close>
  array with \<open>z[n,k] = batch[n,0,k] + i batch[n,1,k]\<close>.
\<close>

theorem complex_builders_agree:
  "form_next16_features_X_complex X = form_features_X_complex X \<and>
   (wf3 X \<and> shape1 X = 2 \<and> 1 \<le> shape0 X \<and> 1 \<le> shape2 X \<longrightarrow>
      form_features_X_complex X = Inr (raw_z X) \<and>
      form_next16_features_X_complex X = Inr (raw_z X) \<and>
      length (raw_z X) = shape0 X \<and>
      (\<forall>n < shape0 X. length (raw_z X ! n) = shape2 X \<and>
         (\<forall>k < shape2 X. raw_z X ! n ! k = Complex (elems X ! n ! 0 ! k) (elems X ! n ! 1 ! k))))"
proof (intro conjI impI)
  show "form_next16_features_X_complex X = form_features_X_complex X"
    by (rule X_complex_same)
next
  assume a: "wf3 X \<and> shape1 X = 2 \<and> 1 \<le> shape0 X \<and> 1 \<le> shape2 X"
  then have ok: "form_features_X_complex X = Inr (raw_z X)"
    by (intro X_complex_ok) simp_all
  show "form_features_X_complex X = Inr (raw_z X)" by (rule ok)
  show "form_next16_features_X_complex X = Inr (raw_z X)"
    using ok by (simp add: X_complex_same)
  show "length (raw_z X) = shape0 X" using a by (simp add: raw_z_length)
  show "\<forall>n < shape0 X. length (raw_z X ! n) = shape2 X \<and>
         (\<forall>k < shape2 X. raw_z X ! n ! k = Complex (elems X ! n ! 0 ! k) (elems X ! n ! 1 ! k))"
    using a by (simp add: raw_z_nth raw_z_nth_length)
qed

theorem complex_builders_agree_witness:
  "form_next16_features_X_complex example_batch = Inr (raw_z example_batch) \<and>
   form_features_X_complex example_batch = Inr (raw_z example_batch) \<and>
   raw_z example_batch = [[1, \<i>, -1, -\<i>], [0, 0, 0, 0]]"
proof -
  have h: "wf3 example_batch \<and> shape1 example_batch = 2 \<and> 1 \<le> shape0 example_batch
      \<and> 1 \<le> shape2 example_batch"
    by (simp add: wf3_example_batch) (simp add: example_batch_def)
  have z: "raw_z example_batch = [[1, \<i>, -1, -\<i>], [0, 0, 0, 0]]"
    by (simp add: raw_z_def sample_z_def example_batch_def upt_conv_Cons complex_eq_iff)
  show ?thesis
    using complex_builders_agree [of example_batch] h z by simp
qed

text \<open>
  Claim C2. For \<open>N\<close> complex sequences of length \<open>L \<ge> 1\<close> the double loop of
  \<open>form_next16_features\<close> never fails and leaves \<open>w[n][k] = z[n][k] * z[n][(k + 8) mod L]\<close>
  for every \<open>n\<close> and every \<open>k = 0..L-1\<close>; the last entry \<open>w[n][L-1]\<close> uses the wrapped index
  \<open>(L - 1 + 8) mod L\<close>.
\<close>

theorem lagged_product_8:
  assumes "length Z = N" and "\<forall>z \<in> set Z. length z = L" and "1 \<le> L"
  shows "\<exists>W. lagged_product 8 Z N L = Inr W \<and> length W = N \<and>
           (\<forall>n < N. length (W ! n) = L \<and>
              (\<forall>k < L. W ! n ! k = Z ! n ! k * Z ! n ! ((k + 8) mod L)) \<and>
              W ! n ! (L - 1) = Z ! n ! (L - 1) * Z ! n ! ((L - 1 + 8) mod L))"
proof -
  let ?W = "map (spec_lagged 8) Z"
  have ok: "lagged_product 8 Z N L = Inr ?W"
    using assms(1,2) by (intro lagged_product_ok) simp_all
  have el: "length (?W ! n) = L \<and> (\<forall>k < L. ?W ! n ! k = Z ! n ! k * Z ! n ! ((k + 8) mod L))"
    if "n < N" for n
    using that assms(1,2) by (simp add: spec_lagged_def)
  have "length (?W ! n) = L \<and>
        (\<forall>k < L. ?W ! n ! k = Z ! n ! k * Z ! n ! ((k + 8) mod L)) \<and>
        ?W ! n ! (L - 1) = Z ! n ! (L - 1) * Z ! n ! ((L - 1 + 8) mod L)"
    if "n < N" for n
  proof -
    have "L - 1 < L" using assms(3) by simp
    with el [OF that] show ?thesis by blast
  qed
  with ok assms(1) show ?thesis by auto
qed

theorem lagged_product_8_witness:
  "lagged_product 8 [[1, 2, 3]] 1 3 = Inr [[3, 2, 6]] \<and>
   (\<exists>W. lagged_product 8 [[1, 2, 3]] 1 3 = Inr W \<and> length W = 1 \<and>
           (\<forall>n < 1. length (W ! n) = 3 \<and>
              (\<forall>k < 3. W ! n ! k = [[1, 2, 3]] ! n ! k * [[1, 2, 3]] ! n ! ((k + 8) mod 3)) \<and>
              W ! n ! (3 - 1) = [[1, 2, 3]] ! n ! (3 - 1) * [[1, 2, 3]] ! n ! ((3 - 1 + 8) mod 3)))"
proof
  show "lagged_product 8 [[1, 2, 3]] 1 3 = Inr [[3, 2, 6]]"
    by code_simp
  show "\<exists>W. lagged_product 8 [[1, 2, 3]] 1 3 = Inr W \<and> length W = 1 \<and>
           (\<forall>n < 1. length (W ! n) = 3 \<and>
              (\<forall>k < 3. W ! n ! k = [[1, 2, 3]] ! n ! k * [[1, 2, 3]] ! n ! ((k + 8) mod 3)) \<and>
              W ! n ! (3 - 1) = [[1, 2, 3]] ! n ! (3 - 1) * [[1, 2, 3]] ! n ! ((3 - 1 + 8) mod 3))"
    by (rule lagged_product_8) simp_all
qed

text \<open>
  Claim C8. With the lag 0 in place of 8, the lagged product of sequences of length
  \<open>L \<ge> 1\<close> is the elementwise square: the loop returns \<open>np.square\<close> of its input, and the
  rule \<open>w[k] = z[k] * z[(k + 0) mod L]\<close> gives \<open>z[k]\<^sup>2\<close>.
\<close>

theorem lag_zero_is_square:
  assumes "length Z = N" and "\<forall>z \<in> set Z. length z = L" and "1 \<le> L"
  shows "lagged_product 0 Z N L = Inr (np_square Z) \<and>
         (\<forall>z \<in> set Z. spec_lagged 0 z = map (\<lambda>x. x ^ 2) z)"
proof -
  have sq: "spec_lagged 0 z = map (\<lambda>x. x ^ 2) z" for z :: "complex list"
    by (rule nth_equalityI) (simp_all add: spec_lagged_def power2_eq_square)
  have "lagged_product 0 Z N L = Inr (map (spec_lagged 0) Z)"
    using assms(1,2) by (intro lagged_product_ok) simp_all
  also have "map (spec_lagged 0) Z = np_square Z"
    using sq by (simp add: np_square_def)
  finally show ?thesis using sq by simp
qed

theorem lag_zero_is_square_witness:
  "lagged_product 0 [[1, \<i>, -1, -\<i>], [0, 0, 0, 0]] 2 4 = Inr [[1, -1, 1, -1], [0, 0, 0, 0]]"
proof -
  have sq: "np_square [[1, \<i>, -1, -\<i>], [0, 0, 0, 0]] = [[1, -1, 1, -1], [0, 0, 0, 0]]"
    by (simp add: np_square_def)
  have "lagged_product 0 [[1, \<i>, -1, -\<i>], [0, 0, 0, 0]] 2 4
        = Inr (np_square [[1, \<i>, -1, -\<i>], [0, 0, 0, 0]]) \<and>
         (\<forall>z \<in> set [[1, \<i>, -1, -\<i>], [0, 0, 0, 0]]. spec_lagged 0 z = map (\<lambda>x. x ^ 2) z)"
    by (rule lag_zero_is_square) simp_all
  with sq show ?thesis by simp
qed


text \<open>
  The specification's end-to-end scenario, evaluated: the rotating unit vector and the
  all-zero sample.
\<close>

lemma Arg_one: "Arg 1 = 0"
  by (rule cis_Arg_unique) simp_all

lemma Arg_minus_one: "Arg (- 1) = pi"
  by (rule cis_Arg_unique) simp_all

lemma raw_z_example_batch: "raw_z example_batch = [[1, \<i>, - 1, - \<i>], [0, 0, 0, 0]]"
  by (simp add: raw_z_def sample_z_def example_batch_def upt_conv_Cons complex_eq_iff)

lemma statistics_zero_sample:
  "map stat_abs (spec_statistics [0, 0, 0, 0]) = [0, 0, 0, 0, 0, 0, 0, 0, 0, 0, 0, 0, 0, 0, 0, 0]"
  by (simp add: spec_statistics_def mean_def Arg_zero)

lemma statistics_rotating_sample:
  "map stat_abs (spec_statistics [1, \<i>, - 1, - \<i>]) =
     [0, 1, pi / 4, pi / 2, 0, 1, 3 * pi ^ 2 / 8, 3 * pi ^ 2 / 8,
      0, 0, 5 * pi ^ 2 / 16, pi ^ 2 / 8, 1, 0, 9 * pi ^ 4 / 64, 9 * pi ^ 4 / 64]"
  by (simp add: spec_statistics_def mean_def Arg_zero Arg_one Arg_minus_one power_divide
      power2_eq_square power4_eq_xxxx abs_mult) 




lemma raw_z_cong:
  assumes "wf3 X" "wf3 X'" "shape0 X = shape0 X'" "shape2 X = shape2 X'"
    "2 \<le> shape1 X" "2 \<le> shape1 X'"
    "\<forall>n < shape0 X. \<forall>k < shape2 X.
        elems X ! n ! 0 ! k = elems X' ! n ! 0 ! k \<and> elems X ! n ! 1 ! k = elems X' ! n ! 1 ! k"
  shows "raw_z X = raw_z X'"
proof (rule nth_equalityI)
  show "length (raw_z X) = length (raw_z X')"
    using assms(1-3) by (simp add: raw_z_length)
next
  fix n assume "n < length (raw_z X)"
  then have n: "n < shape0 X" using assms(1) by (simp add: raw_z_length)
  then have n': "n < shape0 X'" using assms(3) by simp
  show "raw_z X ! n = raw_z X' ! n"
  proof (rule nth_equalityI)
    show "length (raw_z X ! n) = length (raw_z X' ! n)"
      using assms(1,2,4) n n' by (simp add: raw_z_nth_length)
  next
    fix k assume "k < length (raw_z X ! n)"
    then have k: "k < shape2 X" using assms(1) n by (simp add: raw_z_nth_length)
    then have k': "k < shape2 X'" using assms(4) by simp
    show "raw_z X ! n ! k = raw_z X' ! n ! k"
      using assms(1,2,7) n n' k k' by (simp add: raw_z_nth)
  qed
qed

text \<open>
  Claim C9. Two batches with the same \<open>N\<close> and \<open>L\<close>, each with at least two channel rows,
  whose channel rows 0 and 1 agree elementwise, get identical results from
  \<open>form_features\<close> and from \<open>form_next16_features\<close>, whatever further channel rows they
  carry; with \<open>N \<ge> 1\<close> and \<open>L \<ge> 1\<close> that result is a feature matrix, not an error.
\<close>

theorem extra_channels_ignored:
  assumes "wf3 X" and "wf3 X'" and "shape0 X = shape0 X'" and "shape2 X = shape2 X'"
    and "2 \<le> shape1 X" and "2 \<le> shape1 X'"
    and "\<forall>n < shape0 X. \<forall>k < shape2 X.
        elems X ! n ! 0 ! k = elems X' ! n ! 0 ! k \<and> elems X ! n ! 1 ! k = elems X' ! n ! 1 ! k"
  shows "form_features X = form_features X' \<and>
         form_next16_features X = form_next16_features X' \<and>
         (1 \<le> shape0 X \<and> 1 \<le> shape2 X \<longrightarrow>
            \<not> isl (form_features X') \<and> \<not> isl (form_next16_features X'))"
proof (cases "shape0 X = 0 \<or> shape2 X = 0")
  case True
  then have "shape0 X' = 0 \<or> shape2 X' = 0" using assms(3,4) by simp
  with True show ?thesis
    by (auto simp add: form_features_empty form_next16_features_empty)
next
  case False
  then have p: "1 \<le> shape0 X" "1 \<le> shape2 X" by simp_all
  then have p': "1 \<le> shape0 X'" "1 \<le> shape2 X'" using assms(3,4) by simp_all
  have z: "raw_z X = raw_z X'" by (rule raw_z_cong [OF assms])
  show ?thesis
    unfolding form_features_ok [OF assms(1,5) p] form_features_ok [OF assms(2,6) p']
      form_next16_features_ok [OF assms(1,5) p] form_next16_features_ok [OF assms(2,6) p'] z
    by simp
qed

theorem extra_channels_ignored_witness:
  "form_features example_batch = form_features three_channel_batch \<and>
   form_next16_features example_batch = form_next16_features three_channel_batch \<and>
   \<not> isl (form_features three_channel_batch) \<and>
   \<not> isl (form_next16_features three_channel_batch) \<and>
   shape1 three_channel_batch = 3"
proof -
  have sh: "shape0 example_batch = shape0 three_channel_batch"
    "shape2 example_batch = shape2 three_channel_batch"
    "2 \<le> shape1 example_batch" "2 \<le> shape1 three_channel_batch"
    by (simp_all add: example_batch_def three_channel_batch_def)
  have ag: "\<forall>n < shape0 example_batch. \<forall>k < shape2 example_batch.
        elems example_batch ! n ! 0 ! k = elems three_channel_batch ! n ! 0 ! k \<and>
        elems example_batch ! n ! 1 ! k = elems three_channel_batch ! n ! 1 ! k"
    by (auto simp add: example_batch_def three_channel_batch_def less_Suc_eq eval_nat_numeral)
  have pos: "1 \<le> shape0 example_batch \<and> 1 \<le> shape2 example_batch"
    by (simp add: example_batch_def)
  have s3: "shape1 three_channel_batch = 3"
    by (simp add: three_channel_batch_def)
  show ?thesis
    using extra_channels_ignored [OF wf3_example_batch wf3_three_channel_batch sh ag] pos s3
    by blast
qed

lemma wf3_one_channel_batch: "wf3 one_channel_batch"
  by (simp add: wf3_def one_channel_batch_def)

text \<open>
  Claim C7, as stated, fails: a batch whose channel dimension is 3 is not rejected. Both
  extractors return a feature matrix on it.
\<close>

theorem three_channels_not_rejected:
  "shape1 three_channel_batch \<noteq> 2 \<and>
   \<not> isl (form_features three_channel_batch) \<and>
   \<not> isl (form_next16_features three_channel_batch)"
proof -
  have sh: "2 \<le> shape1 three_channel_batch" "1 \<le> shape0 three_channel_batch"
    "1 \<le> shape2 three_channel_batch" "shape1 three_channel_batch \<noteq> 2"
    by (simp_all add: three_channel_batch_def)
  show ?thesis
    unfolding form_features_ok [OF wf3_three_channel_batch sh(1-3)]
      form_next16_features_ok [OF wf3_three_channel_batch sh(1-3)]
    using sh(4) by simp
qed

text \<open>
  Claim C7, amended. The feature computation fails, with no output, when the channel
  dimension is less than 2, for every batch of any \<open>N\<close> and \<open>L\<close>. A channel dimension
  greater than 2 is not rejected: with \<open>N \<ge> 1\<close> and \<open>L \<ge> 1\<close> both extractors succeed.
\<close>

theorem fails_below_two_channels:
  "(shape1 X < 2 \<longrightarrow> isl (form_features X) \<and> isl (form_next16_features X)) \<and>
   (wf3 X \<and> 2 < shape1 X \<and> 1 \<le> shape0 X \<and> 1 \<le> shape2 X \<longrightarrow>
      \<not> isl (form_features X) \<and> \<not> isl (form_next16_features X))"
proof (intro conjI impI)
  assume r: "shape1 X < 2"
  show "isl (form_features X)"
  proof (cases "shape0 X = 0 \<or> shape2 X = 0")
    case True
    then show ?thesis by (simp add: form_features_empty)
  next
    case False
    then have "1 \<le> shape0 X" "1 \<le> shape2 X" by simp_all
    with r show ?thesis by (simp add: form_features_few_rows)
  qed
  show "isl (form_next16_features X)"
  proof (cases "shape0 X = 0 \<or> shape2 X = 0")
    case True
    then show ?thesis by (simp add: form_next16_features_empty)
  next
    case False
    then have "1 \<le> shape0 X" "1 \<le> shape2 X" by simp_all
    with r show ?thesis by (simp add: form_next16_features_few_rows)
  qed
next
  assume a: "wf3 X \<and> 2 < shape1 X \<and> 1 \<le> shape0 X \<and> 1 \<le> shape2 X"
  then have h: "wf3 X" "2 \<le> shape1 X" "1 \<le> shape0 X" "1 \<le> shape2 X" by simp_all
  show "\<not> isl (form_features X)"
    unfolding form_features_ok [OF h] by simp
  show "\<not> isl (form_next16_features X)"
    unfolding form_next16_features_ok [OF h] by simp
qed

theorem fails_below_two_channels_witness:
  "form_features one_channel_batch = Inl IndexError \<and>
   isl (form_features one_channel_batch) \<and> isl (form_next16_features one_channel_batch) \<and>
   \<not> isl (form_features three_channel_batch) \<and>
   \<not> isl (form_next16_features three_channel_batch)"
proof -
  have one: "shape1 one_channel_batch < 2"
    by (simp add: one_channel_batch_def)
  have ev: "form_features one_channel_batch = Inl IndexError"
    by (rule form_features_few_rows) (simp_all add: one_channel_batch_def)
  have three: "wf3 three_channel_batch \<and> 2 < shape1 three_channel_batch \<and>
      1 \<le> shape0 three_channel_batch \<and> 1 \<le> shape2 three_channel_batch"
    by (simp add: wf3_three_channel_batch) (simp add: three_channel_batch_def)
  show ?thesis
    using fails_below_two_channels [of one_channel_batch]
      fails_below_two_channels [of three_channel_batch] one ev three
    by blast
qed

lemma lag0_column_ignores_sqr:
  assumes "j < 16" and "j \<notin> {4, 8, 12}"
  shows "map snd (dict_16features_lag0 c Z S A) ! j = map snd (dict_16features_lag0 c Z S' A) ! j"
proof -
  have "j = 0 \<or> j = 1 \<or> j = 2 \<or> j = 3 \<or> j = 5 \<or> j = 6 \<or> j = 7 \<or> j = 9 \<or> j = 10
      \<or> j = 11 \<or> j = 13 \<or> j = 14 \<or> j = 15"
    using assms by simp arith
  then have "j \<in> {0, 1, 2, 3, 5, 6, 7, 9, 10, 11, 13, 14, 15}"
    by simp
  then show ?thesis
    by (elim insertE emptyE) (simp_all add: dict_16features_lag0_def)
qed

lemma lag0_magnitude_columns:
  assumes "j \<in> {1, 5, 9, 13}" and "np_abs Z = np_abs Z'"
  shows "map snd (dict_16features_lag0 c Z S A) ! j = map snd (dict_16features_lag0 c Z' S' A') ! j"
  using assms by (elim insertE emptyE) (simp_all add: dict_16features_lag0_def)

lemma lag0_angle_columns:
  assumes "j \<in> {2, 3, 6, 7, 10, 11, 14, 15}"
  shows "map snd (dict_16features_lag0 c Z S A) ! j = map snd (dict_16features_lag0 c Z' S' A) ! j"
  using assms by (elim insertE emptyE) (simp_all add: dict_16features_lag0_def)

lemma lag0_row_explicit:
  assumes "length z = L"
  shows "map stat_abs (spec_statistics z) =
    [cmod (mean z),
     \<bar>mean (map cmod z)\<bar>,
     \<bar>mean (map Arg z)\<bar>,
     \<bar>mean (map abs (map Arg z))\<bar>,
     cmod (mean (map (\<lambda>x. x ^ 2) z)),
     \<bar>mean (map (\<lambda>x. (cmod x) ^ 2) z)\<bar>,
     \<bar>mean (map (\<lambda>x. x ^ 2) (map Arg z))\<bar>,
     \<bar>mean (map (\<lambda>x. \<bar>x\<bar> ^ 2) (map Arg z))\<bar>,
     cmod (mean (map (\<lambda>x. x ^ 2) z) - complex_of_real (1 / (real L) ^ 2) * (sum_list z) ^ 2),
     \<bar>mean (map (\<lambda>x. (cmod x) ^ 2) z) - (1 / (real L) ^ 2) * (sum_list (map cmod z)) ^ 2\<bar>,
     \<bar>mean (map (\<lambda>x. x ^ 2) (map Arg z)) - (1 / (real L) ^ 2) * (sum_list (map Arg z)) ^ 2\<bar>,
     \<bar>mean (map (\<lambda>x. \<bar>x\<bar> ^ 2) (map Arg z))
        - (1 / (real L) ^ 2) * (sum_list (map abs (map Arg z))) ^ 2\<bar>,
     cmod (mean (map (\<lambda>x. x ^ 4) z)
        - complex_of_real (1 / (real L) ^ 2) * (sum_list (map (\<lambda>x. x ^ 2) z)) ^ 2),
     \<bar>mean (map (\<lambda>x. (cmod x) ^ 4) z)
        - (1 / (real L) ^ 2) * (sum_list (map (\<lambda>x. (cmod x) ^ 2) z)) ^ 2\<bar>,
     \<bar>mean (map (\<lambda>x. x ^ 4) (map Arg z))
        - (1 / (real L) ^ 2) * (sum_list (map (\<lambda>x. x ^ 2) (map Arg z))) ^ 2\<bar>,
     \<bar>mean (map (\<lambda>x. \<bar>x\<bar> ^ 4) (map Arg z))
        - (1 / (real L) ^ 2) * (sum_list (map (\<lambda>x. \<bar>x\<bar> ^ 2) (map Arg z))) ^ 2\<bar>]"
  using assms by (simp add: spec_statistics_def Let_def o_def)

lemma Arg_is_argument:
  "rcis (cmod x) (Arg x) = x \<and> - pi \<le> Arg x \<and> Arg x \<le> pi"
  using rcis_cmod_Arg [of x] Arg_bounded [of x] by simp

text \<open>
  Claim C4. On a batch of shape \<open>(N, 2, L)\<close> with \<open>N \<ge> 1\<close> and \<open>L \<ge> 1\<close>, row \<open>i\<close> of
  \<open>form_features\<close> is computed from the unshifted raw sequence \<open>z[k] = I[k] + i Q[k]\<close> of
  sample \<open>i\<close> and from an array \<open>a\<close> of its angles (each \<open>a[k]\<close> an argument of \<open>z[k]\<close> between
  \<open>-\<pi>\<close> and \<open>\<pi>\<close>), by the sixteen formulas written out below: statistics 2, 6, 10, 14 from
  the magnitudes \<open>|z|\<close>, statistics 3, 4, 7, 8, 11, 12, 15, 16 from the angles, and the
  square \<open>z\<^sup>2\<close> in statistics 5, 9 and 13 only. No lagged product occurs. In the dictionary,
  the squared array is read by the columns of statistics 5, 9 and 13 alone; the magnitude
  columns are fixed by \<open>|z|\<close> and the angle columns by the array of angles.
\<close>

theorem lag0_reads_raw_signal:
  assumes "wf3 X" and "shape1 X = 2" and "1 \<le> shape0 X" and "1 \<le> shape2 X"
  shows "(\<exists>M. form_features X = Inr M \<and> length M = shape0 X \<and>
      (\<forall>i < shape0 X. \<exists>z a. length z = shape2 X \<and> length a = shape2 X \<and>
         (\<forall>k < shape2 X.
            z ! k = Complex (elems X ! i ! 0 ! k) (elems X ! i ! 1 ! k) \<and>
            rcis (cmod (z ! k)) (a ! k) = z ! k \<and> - pi \<le> a ! k \<and> a ! k \<le> pi) \<and>
         M ! i =
           (let n = real (shape2 X) in
            [cmod (mean z),
             \<bar>mean (map cmod z)\<bar>,
             \<bar>mean a\<bar>,
             \<bar>mean (map abs a)\<bar>,
             cmod (mean (map (\<lambda>x. x ^ 2) z)),
             \<bar>mean (map (\<lambda>x. (cmod x) ^ 2) z)\<bar>,
             \<bar>mean (map (\<lambda>x. x ^ 2) a)\<bar>,
             \<bar>mean (map (\<lambda>x. \<bar>x\<bar> ^ 2) a)\<bar>,
             cmod (mean (map (\<lambda>x. x ^ 2) z) - complex_of_real (1 / n ^ 2) * (sum_list z) ^ 2),
             \<bar>mean (map (\<lambda>x. (cmod x) ^ 2) z) - (1 / n ^ 2) * (sum_list (map cmod z)) ^ 2\<bar>,
             \<bar>mean (map (\<lambda>x. x ^ 2) a) - (1 / n ^ 2) * (sum_list a) ^ 2\<bar>,
             \<bar>mean (map (\<lambda>x. \<bar>x\<bar> ^ 2) a) - (1 / n ^ 2) * (sum_list (map abs a)) ^ 2\<bar>,
             cmod (mean (map (\<lambda>x. x ^ 4) z)
                - complex_of_real (1 / n ^ 2) * (sum_list (map (\<lambda>x. x ^ 2) z)) ^ 2),
             \<bar>mean (map (\<lambda>x. (cmod x) ^ 4) z)
                - (1 / n ^ 2) * (sum_list (map (\<lambda>x. (cmod x) ^ 2) z)) ^ 2\<bar>,
             \<bar>mean (map (\<lambda>x. x ^ 4) a) - (1 / n ^ 2) * (sum_list (map (\<lambda>x. x ^ 2) a)) ^ 2\<bar>,
             \<bar>mean (map (\<lambda>x. \<bar>x\<bar> ^ 4) a)
                - (1 / n ^ 2) * (sum_list (map (\<lambda>x. \<bar>x\<bar> ^ 2) a)) ^ 2\<bar>]))) \<and>
    (\<forall>j < 16. j \<notin> {4, 8, 12} \<longrightarrow> (\<forall>c Z S S' A.
        map snd (dict_16features_lag0 c Z S A) ! j
          = map snd (dict_16features_lag0 c Z S' A) ! j)) \<and>
    (\<forall>j \<in> {1, 5, 9, 13}. \<forall>c Z Z' S S' A A'. np_abs Z = np_abs Z' \<longrightarrow>
        map snd (dict_16features_lag0 c Z S A) ! j
          = map snd (dict_16features_lag0 c Z' S' A') ! j) \<and>
    (\<forall>j \<in> {2, 3, 6, 7, 10, 11, 14, 15}. \<forall>c Z Z' S S' A.
        map snd (dict_16features_lag0 c Z S A) ! j
          = map snd (dict_16features_lag0 c Z' S' A) ! j)"
proof (intro conjI)
  let ?M = "map (\<lambda>z. map stat_abs (spec_statistics z)) (raw_z X)"
  have R: "2 \<le> shape1 X" using assms(2) by simp
  have f0: "form_features X = Inr ?M"
    by (rule form_features_ok [OF assms(1) R assms(3,4)])
  have len: "length ?M = shape0 X"
    using raw_z_length [OF assms(1)] by simp
  have row: "\<exists>z a. length z = shape2 X \<and> length a = shape2 X \<and>
         (\<forall>k < shape2 X.
            z ! k = Complex (elems X ! i ! 0 ! k) (elems X ! i ! 1 ! k) \<and>
            rcis (cmod (z ! k)) (a ! k) = z ! k \<and> - pi \<le> a ! k \<and> a ! k \<le> pi) \<and>
         ?M ! i =
           (let n = real (shape2 X) in
            [cmod (mean z),
             \<bar>mean (map cmod z)\<bar>,
             \<bar>mean a\<bar>,
             \<bar>mean (map abs a)\<bar>,
             cmod (mean (map (\<lambda>x. x ^ 2) z)),
             \<bar>mean (map (\<lambda>x. (cmod x) ^ 2) z)\<bar>,
             \<bar>mean (map (\<lambda>x. x ^ 2) a)\<bar>,
             \<bar>mean (map (\<lambda>x. \<bar>x\<bar> ^ 2) a)\<bar>,
             cmod (mean (map (\<lambda>x. x ^ 2) z) - complex_of_real (1 / n ^ 2) * (sum_list z) ^ 2),
             \<bar>mean (map (\<lambda>x. (cmod x) ^ 2) z) - (1 / n ^ 2) * (sum_list (map cmod z)) ^ 2\<bar>,
             \<bar>mean (map (\<lambda>x. x ^ 2) a) - (1 / n ^ 2) * (sum_list a) ^ 2\<bar>,
             \<bar>mean (map (\<lambda>x. \<bar>x\<bar> ^ 2) a) - (1 / n ^ 2) * (sum_list (map abs a)) ^ 2\<bar>,
             cmod (mean (map (\<lambda>x. x ^ 4) z)
                - complex_of_real (1 / n ^ 2) * (sum_list (map (\<lambda>x. x ^ 2) z)) ^ 2),
             \<bar>mean (map (\<lambda>x. (cmod x) ^ 4) z)
                - (1 / n ^ 2) * (sum_list (map (\<lambda>x. (cmod x) ^ 2) z)) ^ 2\<bar>,
             \<bar>mean (map (\<lambda>x. x ^ 4) a) - (1 / n ^ 2) * (sum_list (map (\<lambda>x. x ^ 2) a)) ^ 2\<bar>,
             \<bar>mean (map (\<lambda>x. \<bar>x\<bar> ^ 4) a)
                - (1 / n ^ 2) * (sum_list (map (\<lambda>x. \<bar>x\<bar> ^ 2) a)) ^ 2\<bar>])"
    if i: "i < shape0 X" for i
  proof -
    let ?z = "raw_z X ! i"
    let ?a = "map Arg ?z"
    have lz: "length ?z = shape2 X"
      by (rule raw_z_nth_length [OF assms(1) i])
    have el: "\<forall>k < shape2 X.
            ?z ! k = Complex (elems X ! i ! 0 ! k) (elems X ! i ! 1 ! k) \<and>
            rcis (cmod (?z ! k)) (?a ! k) = ?z ! k \<and> - pi \<le> ?a ! k \<and> ?a ! k \<le> pi"
      using lz raw_z_nth [OF assms(1) i] Arg_is_argument by simp
    have Mi: "?M ! i = map stat_abs (spec_statistics ?z)"
      using i raw_z_length [OF assms(1)] by simp
    show ?thesis
      apply (rule exI [of _ ?z])
      apply (rule exI [of _ ?a])
      apply (intro conjI)
         apply (rule lz)
        apply (simp add: lz)
       apply (rule el)
      apply (simp only: Mi Let_def lag0_row_explicit [OF lz])
      done
  qed
  show "\<exists>M. form_features X = Inr M \<and> length M = shape0 X \<and>
      (\<forall>i < shape0 X. \<exists>z a. length z = shape2 X \<and> length a = shape2 X \<and>
         (\<forall>k < shape2 X.
            z ! k = Complex (elems X ! i ! 0 ! k) (elems X ! i ! 1 ! k) \<and>
            rcis (cmod (z ! k)) (a ! k) = z ! k \<and> - pi \<le> a ! k \<and> a ! k \<le> pi) \<and>
         M ! i =
           (let n = real (shape2 X) in
            [cmod (mean z),
             \<bar>mean (map cmod z)\<bar>,
             \<bar>mean a\<bar>,
             \<bar>mean (map abs a)\<bar>,
             cmod (mean (map (\<lambda>x. x ^ 2) z)),
             \<bar>mean (map (\<lambda>x. (cmod x) ^ 2) z)\<bar>,
             \<bar>mean (map (\<lambda>x. x ^ 2) a)\<bar>,
             \<bar>mean (map (\<lambda>x. \<bar>x\<bar> ^ 2) a)\<bar>,
             cmod (mean (map (\<lambda>x. x ^ 2) z) - complex_of_real (1 / n ^ 2) * (sum_list z) ^ 2),
             \<bar>mean (map (\<lambda>x. (cmod x) ^ 2) z) - (1 / n ^ 2) * (sum_list (map cmod z)) ^ 2\<bar>,
             \<bar>mean (map (\<lambda>x. x ^ 2) a) - (1 / n ^ 2) * (sum_list a) ^ 2\<bar>,
             \<bar>mean (map (\<lambda>x. \<bar>x\<bar> ^ 2) a) - (1 / n ^ 2) * (sum_list (map abs a)) ^ 2\<bar>,
             cmod (mean (map (\<lambda>x. x ^ 4) z)
                - complex_of_real (1 / n ^ 2) * (sum_list (map (\<lambda>x. x ^ 2) z)) ^ 2),
             \<bar>mean (map (\<lambda>x. (cmod x) ^ 4) z)
                - (1 / n ^ 2) * (sum_list (map (\<lambda>x. (cmod x) ^ 2) z)) ^ 2\<bar>,
             \<bar>mean (map (\<lambda>x. x ^ 4) a) - (1 / n ^ 2) * (sum_list (map (\<lambda>x. x ^ 2) a)) ^ 2\<bar>,
             \<bar>mean (map (\<lambda>x. \<bar>x\<bar> ^ 4) a)
                - (1 / n ^ 2) * (sum_list (map (\<lambda>x. \<bar>x\<bar> ^ 2) a)) ^ 2\<bar>]))"
    apply (rule exI [of _ ?M])
    apply (intro conjI allI impI)
      apply (rule f0)
     apply (rule len)
    apply (erule row)
    done
  show "\<forall>j < 16. j \<notin> {4, 8, 12} \<longrightarrow> (\<forall>c Z S S' A.
            map snd (dict_16features_lag0 c Z S A) ! j
              = map snd (dict_16features_lag0 c Z S' A) ! j)"
    using lag0_column_ignores_sqr by blast
  show "\<forall>j \<in> {1, 5, 9, 13}. \<forall>c Z Z' S S' A A'. np_abs Z = np_abs Z' \<longrightarrow>
            map snd (dict_16features_lag0 c Z S A) ! j
              = map snd (dict_16features_lag0 c Z' S' A') ! j"
    using lag0_magnitude_columns by blast
  show "\<forall>j \<in> {2, 3, 6, 7, 10, 11, 14, 15}. \<forall>c Z Z' S S' A.
            map snd (dict_16features_lag0 c Z S A) ! j
              = map snd (dict_16features_lag0 c Z' S' A) ! j"
    using lag0_angle_columns by blast
qed

theorem lag0_reads_raw_signal_witness:
  "form_features example_batch =
     Inr [[0, 1, pi / 4, pi / 2, 0, 1, 3 * pi ^ 2 / 8, 3 * pi ^ 2 / 8,
           0, 0, 5 * pi ^ 2 / 16, pi ^ 2 / 8, 1, 0, 9 * pi ^ 4 / 64, 9 * pi ^ 4 / 64],
          [0, 0, 0, 0, 0, 0, 0, 0, 0, 0, 0, 0, 0, 0, 0, 0]] \<and>
   (\<exists>M. form_features example_batch = Inr M \<and> length M = shape0 example_batch) \<and>
   map snd (dict_16features_lag0 (1 / 16) [[1, \<i>, -1, -\<i>]] [[1, -1, 1, -1]]
              [[0, pi / 2, pi, - pi / 2]]) ! 1
     = map snd (dict_16features_lag0 (1 / 16) [[1, \<i>, -1, -\<i>]] [[7, 7, 7, 7]]
              [[0, pi / 2, pi, - pi / 2]]) ! 1"
proof (intro conjI)
  have sh: "shape1 example_batch = 2" "1 \<le> shape0 example_batch" "1 \<le> shape2 example_batch"
    "2 \<le> shape1 example_batch"
    by (simp_all add: example_batch_def)
  note inst = lag0_reads_raw_signal [OF wf3_example_batch sh(1-3)]
  show "form_features example_batch =
     Inr [[0, 1, pi / 4, pi / 2, 0, 1, 3 * pi ^ 2 / 8, 3 * pi ^ 2 / 8,
           0, 0, 5 * pi ^ 2 / 16, pi ^ 2 / 8, 1, 0, 9 * pi ^ 4 / 64, 9 * pi ^ 4 / 64],
          [0, 0, 0, 0, 0, 0, 0, 0, 0, 0, 0, 0, 0, 0, 0, 0]]"
    unfolding form_features_ok [OF wf3_example_batch sh(4,2,3)] raw_z_example_batch list.map
      statistics_rotating_sample statistics_zero_sample ..
  show "\<exists>M. form_features example_batch = Inr M \<and> length M = shape0 example_batch"
    using inst [THEN conjunct1] by (elim exE conjE) (intro exI conjI, assumption+)
  show "map snd (dict_16features_lag0 (1 / 16) [[1, \<i>, -1, -\<i>]] [[1, -1, 1, -1]]
              [[0, pi / 2, pi, - pi / 2]]) ! 1
     = map snd (dict_16features_lag0 (1 / 16) [[1, \<i>, -1, -\<i>]] [[7, 7, 7, 7]]
              [[0, pi / 2, pi, - pi / 2]]) ! 1"
    by (rule inst [THEN conjunct2, THEN conjunct1, rule_format]) simp_all
qed

end
